theory Spec2Isabelle
  imports Main
begin

section \<open>The settings module \<^verbatim>\<open>api/settings/config.py\<close>\<close>

text \<open>
  The module declares one pydantic-settings class, \<^verbatim>\<open>Settings(BaseSettings)\<close>, with four
  required fields, a memoised accessor \<^verbatim>\<open>get_settings\<close> (\<^verbatim>\<open>functools.lru_cache\<close>) and a
  module-level binding \<^verbatim>\<open>settings = get_settings()\<close>.

  What the class statement means is fixed by the two libraries it is written in. The
  embedding follows their behaviour for exactly the options that \<^verbatim>\<open>config.py\<close> sets and
  leaves at their defaults:
  \<^item> \<^verbatim>\<open>Settings()\<close> is called without arguments, so the values come from the process
    environment and from the file \<^verbatim>\<open>.env\<close> (\<^verbatim>\<open>env_file\<close>), the process environment first;
  \<^item> \<^verbatim>\<open>model_config\<close> does not set \<^verbatim>\<open>extra\<close>, so \<^verbatim>\<open>BaseSettings\<close>' own \<^verbatim>\<open>extra='forbid'\<close>
    applies, and the dotenv source hands every variable of the file to the model;
  \<^item> no field has a default, so each one is required;
  \<^item> validation collects the errors of all fields into one \<^verbatim>\<open>ValidationError\<close>.

  A source of variables is given as the items of the dictionary the library reads from
  it (names as the library matches them against the field names, values as strings);
  \<open>map_of\<close> is the lookup. A Python \<^verbatim>\<open>str\<close> value is a list of its characters, of any
  character type \<open>'c\<close>, so that \<open>length\<close> is Python's \<^verbatim>\<open>len\<close>.
\<close>

subsection \<open>Data\<close>

record 'c Settings =
  SECRET_KEY :: "'c list"
  ALGORITHM :: "'c list"
  ACCESS_TOKEN_EXPIRE_MINUTES :: int
  DATABASE_URL :: "'c list"

text \<open>The kinds of error a field of this class can report, under pydantic's names.\<close>

datatype error_type =
  Missing
  | String_too_short
  | String_too_long
  | Int_parsing
  | Greater_than_equal
  | Extra_forbidden

text \<open>One exception class; it carries a line (location, kind) for every failed input.\<close>

datatype error = ValidationError "(string \<times> error_type) list"

type_synonym 'c environ = "(string \<times> 'c list) list"

text \<open>
  pydantic's coercion of a string to \<^verbatim>\<open>int\<close> is not part of the repository. It is a
  parameter of the model: \<open>None\<close> where the string is not read as an integer.
\<close>

type_synonym 'c str_as_int = "'c list \<Rightarrow> int option"

subsection \<open>Field validators\<close>

text \<open>A \<^verbatim>\<open>str\<close> field with optional \<^verbatim>\<open>min_length\<close> and \<^verbatim>\<open>max_length\<close>; the value is kept as it is.\<close>

definition validate_str :: "nat option \<Rightarrow> nat option \<Rightarrow> 'c list \<Rightarrow> error_type + 'c list" where
  "validate_str min_length max_length v =
     (if (case min_length of None \<Rightarrow> False | Some n \<Rightarrow> length v < n) then Inl String_too_short
      else if (case max_length of None \<Rightarrow> False | Some n \<Rightarrow> n < length v) then Inl String_too_long
      else Inr v)"

text \<open>An \<^verbatim>\<open>int\<close> field with an optional lower bound \<^verbatim>\<open>ge\<close>.\<close>

definition validate_int :: "'c str_as_int \<Rightarrow> int option \<Rightarrow> 'c list \<Rightarrow> error_type + int" where
  "validate_int coerce ge v =
     (case coerce v of
        None \<Rightarrow> Inl Int_parsing
      | Some n \<Rightarrow>
          if (case ge of None \<Rightarrow> False | Some b \<Rightarrow> n < b) then Inl Greater_than_equal
          else Inr n)"

text \<open>The four \<^verbatim>\<open>Field(...)\<close> declarations of the class, with the constraints each one sets.\<close>

definition SECRET_KEY_field :: "'c list \<Rightarrow> error_type + 'c list" where
  "SECRET_KEY_field = validate_str (Some 64) (Some 64)"

definition ALGORITHM_field :: "'c list \<Rightarrow> error_type + 'c list" where
  "ALGORITHM_field = validate_str None None"

definition ACCESS_TOKEN_EXPIRE_MINUTES_field :: "'c str_as_int \<Rightarrow> 'c list \<Rightarrow> error_type + int" where
  "ACCESS_TOKEN_EXPIRE_MINUTES_field coerce = validate_int coerce (Some 1)"

definition DATABASE_URL_field :: "'c list \<Rightarrow> error_type + 'c list" where
  "DATABASE_URL_field = validate_str None None"

definition field_names :: "string list" where
  "field_names = [''SECRET_KEY'', ''ALGORITHM'', ''ACCESS_TOKEN_EXPIRE_MINUTES'', ''DATABASE_URL'']"

subsection \<open>The settings sources\<close>

text \<open>The environment source: for every field, the variable of that name, when it is set.\<close>

definition env_settings :: "'c environ \<Rightarrow> 'c environ" where
  "env_settings env_vars =
     concat (map (\<lambda>k. case map_of env_vars k of None \<Rightarrow> [] | Some v \<Rightarrow> [(k, v)]) field_names)"

text \<open>
  The dotenv source: the same for the variables of the file, and then every other
  variable of the file that has a non-empty value.
\<close>

definition dotenv_settings :: "'c environ \<Rightarrow> 'c environ" where
  "dotenv_settings file_vars =
     env_settings file_vars @ filter (\<lambda>(k, v). k \<notin> set field_names \<and> v \<noteq> []) file_vars"

text \<open>The sources are merged in priority order: an earlier entry wins the lookup.\<close>

definition settings_build_values :: "'c environ \<Rightarrow> 'c environ \<Rightarrow> 'c environ" where
  "settings_build_values env_vars file_vars = env_settings env_vars @ dotenv_settings file_vars"

subsection \<open>Validation of the model\<close>

definition validate_field ::
  "string \<Rightarrow> ('c list \<Rightarrow> error_type + 'a) \<Rightarrow> 'c list option \<Rightarrow> (string \<times> error_type) list + 'a" where
  "validate_field name validator input =
     (case input of
        None \<Rightarrow> Inl [(name, Missing)]
      | Some v \<Rightarrow> (case validator v of Inl e \<Rightarrow> Inl [(name, e)] | Inr x \<Rightarrow> Inr x))"

definition errors_of :: "(string \<times> error_type) list + 'a \<Rightarrow> (string \<times> error_type) list" where
  "errors_of r = (case r of Inl es \<Rightarrow> es | Inr _ \<Rightarrow> [])"

definition extra_errors :: "'c environ \<Rightarrow> (string \<times> error_type) list" where
  "extra_errors data =
     map (\<lambda>k. (k, Extra_forbidden)) (remdups (filter (\<lambda>k. k \<notin> set field_names) (map fst data)))"

text \<open>
  Every field is validated, also after another one has failed; the lines of all
  failures are collected in the order of the fields, the surplus inputs last.
\<close>

definition validation_errors :: "'c str_as_int \<Rightarrow> 'c environ \<Rightarrow> (string \<times> error_type) list" where
  "validation_errors coerce data =
     (let input = map_of data
      in errors_of (validate_field ''SECRET_KEY'' SECRET_KEY_field (input ''SECRET_KEY''))
         @ errors_of (validate_field ''ALGORITHM'' ALGORITHM_field (input ''ALGORITHM''))
         @ errors_of (validate_field ''ACCESS_TOKEN_EXPIRE_MINUTES''
             (ACCESS_TOKEN_EXPIRE_MINUTES_field coerce) (input ''ACCESS_TOKEN_EXPIRE_MINUTES''))
         @ errors_of (validate_field ''DATABASE_URL'' DATABASE_URL_field (input ''DATABASE_URL''))
         @ extra_errors data)"

text \<open>The record is built only when nothing failed; otherwise the one exception is raised.\<close>

definition model_validate :: "'c str_as_int \<Rightarrow> 'c environ \<Rightarrow> error + 'c Settings" where
  "model_validate coerce data =
     (let input = map_of data
      in case (validate_field ''SECRET_KEY'' SECRET_KEY_field (input ''SECRET_KEY''),
               validate_field ''ALGORITHM'' ALGORITHM_field (input ''ALGORITHM''),
               validate_field ''ACCESS_TOKEN_EXPIRE_MINUTES''
                 (ACCESS_TOKEN_EXPIRE_MINUTES_field coerce) (input ''ACCESS_TOKEN_EXPIRE_MINUTES''),
               validate_field ''DATABASE_URL'' DATABASE_URL_field (input ''DATABASE_URL''),
               extra_errors data) of
           (Inr sk, Inr alg, Inr mins, Inr url, []) \<Rightarrow>
             Inr \<lparr>SECRET_KEY = sk, ALGORITHM = alg,
                  ACCESS_TOKEN_EXPIRE_MINUTES = mins, DATABASE_URL = url\<rparr>
         | _ \<Rightarrow> Inl (ValidationError (validation_errors coerce data)))"

text \<open>\<^verbatim>\<open>Settings()\<close>: build the input from the sources, then validate it.\<close>

definition Settings_init :: "'c str_as_int \<Rightarrow> 'c environ \<Rightarrow> 'c environ \<Rightarrow> error + 'c Settings" where
  "Settings_init coerce env_vars file_vars =
     model_validate coerce (settings_build_values env_vars file_vars)"

subsection \<open>The cached accessor and the module\<close>

text \<open>
  \<^verbatim>\<open>@lru_cache\<close> on a function without parameters: one cache slot, and the counters of
  \<^verbatim>\<open>cache_info()\<close>. A miss runs the function (\<open>misses\<close> counts the runs); a result is
  stored only when the function returns, so an exception leaves the slot empty. The
  model is sequential: a call has finished before the next one begins.
\<close>

record 'c lru_cache =
  cached :: "'c Settings option"
  hits :: nat
  misses :: nat

definition get_settings ::
  "'c str_as_int \<Rightarrow> 'c environ \<Rightarrow> 'c environ \<Rightarrow> 'c lru_cache
     \<Rightarrow> (error + 'c Settings) \<times> 'c lru_cache" where
  "get_settings coerce env_vars file_vars c =
     (case cached c of
        Some s \<Rightarrow> (Inr s, c\<lparr>hits := hits c + 1\<rparr>)
      | None \<Rightarrow>
          (case Settings_init coerce env_vars file_vars of
             Inl e \<Rightarrow> (Inl e, c\<lparr>misses := misses c + 1\<rparr>)
           | Inr s \<Rightarrow> (Inr s, c\<lparr>cached := Some s, misses := misses c + 1\<rparr>)))"

text \<open>
  Executing the module body: a fresh cache, then \<^verbatim>\<open>settings = get_settings()\<close>. An
  exception there is the failure of the import.
\<close>

record 'c module =
  settings :: "'c Settings"
  get_settings_cache :: "'c lru_cache"

definition import_module :: "'c str_as_int \<Rightarrow> 'c environ \<Rightarrow> 'c environ \<Rightarrow> error + 'c module" where
  "import_module coerce env_vars file_vars =
     (case get_settings coerce env_vars file_vars \<lparr>cached = None, hits = 0, misses = 0\<rparr> of
        (Inl e, _) \<Rightarrow> Inl e
      | (Inr s, c) \<Rightarrow> Inr \<lparr>settings = s, get_settings_cache = c\<rparr>)"

text \<open>
  Later calls of \<^verbatim>\<open>get_settings()\<close>, one after the other, each under the environment and
  the file of its moment.
\<close>

fun calls ::
  "'c str_as_int \<Rightarrow> ('c environ \<times> 'c environ) list \<Rightarrow> 'c lru_cache
     \<Rightarrow> (error + 'c Settings) list \<times> 'c lru_cache" where
  "calls coerce [] c = ([], c)"
| "calls coerce ((env_vars, file_vars) # es) c =
     (case get_settings coerce env_vars file_vars c of
        (r, c') \<Rightarrow> (case calls coerce es c' of (rs, c'') \<Rightarrow> (r # rs, c'')))"

subsection \<open>The precedence rule in the words of the specification\<close>

text \<open>
  Not taken from the code: the rule as the specification words it, to be compared with
  what \<^verbatim>\<open>Settings()\<close> does. The value of a variable is the one of the process environment
  when the variable is set there; the one of the environment file is used only when it
  is not.
\<close>

definition spec_value :: "'c environ \<Rightarrow> 'c environ \<Rightarrow> string \<Rightarrow> 'c list option" where
  "spec_value env_vars file_vars k =
     (case map_of env_vars k of Some v \<Rightarrow> Some v | None \<Rightarrow> map_of file_vars k)"

subsection \<open>The object and its attributes\<close>














subsection \<open>Plain decimal numerals\<close>

text \<open>
  An optional sign and one or more decimal digits: the strings every integer parser
  reads the same way. Used where a concrete coercion is needed.
\<close>

definition digit_of :: "char \<Rightarrow> nat option" where
  "digit_of ch = (let n = (of_char ch :: nat) in if 48 \<le> n \<and> n \<le> 57 then Some (n - 48) else None)"

fun decimal_digits :: "string \<Rightarrow> nat \<Rightarrow> nat option" where
  "decimal_digits [] acc = Some acc"
| "decimal_digits (ch # cs) acc =
     (case digit_of ch of None \<Rightarrow> None | Some d \<Rightarrow> decimal_digits cs (10 * acc + d))"

definition decimal_int :: "string \<Rightarrow> int option" where
  "decimal_int s =
     (case s of
        [] \<Rightarrow> None
      | ch # cs \<Rightarrow>
          if ch = CHR ''-'' then (if cs = [] then None else map_option (\<lambda>n. - int n) (decimal_digits cs 0))
          else if ch = CHR ''+'' then (if cs = [] then None else map_option int (decimal_digits cs 0))
          else map_option int (decimal_digits s 0))"

section \<open>Properties\<close>

subsection \<open>The sources\<close>

lemma map_of_lookup_all:
  "map_of (concat (map (\<lambda>k. case map_of e k of None \<Rightarrow> [] | Some v \<Rightarrow> [(k, v)]) ks)) k =
     (if k \<in> set ks then map_of e k else None)"
  by (induction ks) (auto split: option.splits)

lemma fst_lookup_all:
  "fst ` set (concat (map (\<lambda>k. case map_of e k of None \<Rightarrow> [] | Some v \<Rightarrow> [(k, v)]) ks)) \<subseteq> set ks"
  by (induction ks) (auto split: option.splits)

lemma map_of_env_settings:
  "map_of (env_settings e) k = (if k \<in> set field_names then map_of e k else None)"
  unfolding env_settings_def by (rule map_of_lookup_all)

lemma fst_env_settings: "fst ` set (env_settings e) \<subseteq> set field_names"
  unfolding env_settings_def by (rule fst_lookup_all)

lemma map_of_surplus:
  "k \<in> set field_names \<Longrightarrow>
   map_of (filter (\<lambda>(k, v). k \<notin> set field_names \<and> v \<noteq> []) f) k = None"
  by (induction f) auto

lemma map_of_dotenv_settings:
  "k \<in> set field_names \<Longrightarrow> map_of (dotenv_settings f) k = map_of f k"
  by (simp add: dotenv_settings_def map_add_def map_of_env_settings map_of_surplus
      split: option.splits)

lemma build_values_field:
  "k \<in> set field_names \<Longrightarrow>
   map_of (settings_build_values e f) k = (case map_of e k of Some v \<Rightarrow> Some v | None \<Rightarrow> map_of f k)"
  by (simp add: settings_build_values_def map_add_def map_of_env_settings map_of_dotenv_settings
      split: option.splits)

lemma extra_errors_empty_iff:
  "extra_errors data = [] \<longleftrightarrow> fst ` set data \<subseteq> set field_names"
  by (auto simp: extra_errors_def filter_empty_conv)

lemma extra_errors_mem:
  "(k, t) \<in> set (extra_errors data) \<longleftrightarrow>
   t = Extra_forbidden \<and> k \<in> fst ` set data \<and> k \<notin> set field_names"
  by (auto simp: extra_errors_def)

lemma fst_surplus:
  "fst ` set (filter (\<lambda>(k, v). k \<notin> S \<and> v \<noteq> []) f) \<subseteq> S \<longleftrightarrow>
   (\<forall>(k, v) \<in> set f. k \<in> S \<or> v = [])"
  by (induction f) auto

lemma extra_errors_build_values:
  "extra_errors (settings_build_values e f) = [] \<longleftrightarrow>
   (\<forall>(k, v) \<in> set f. k \<in> set field_names \<or> v = [])"
proof -
  have "fst ` set (settings_build_values e f) \<subseteq> set field_names \<longleftrightarrow>
        fst ` set (filter (\<lambda>(k, v). k \<notin> set field_names \<and> v \<noteq> []) f) \<subseteq> set field_names"
    using fst_env_settings[of e] fst_env_settings[of f]
    by (simp add: settings_build_values_def dotenv_settings_def image_Un)
  then show ?thesis
    by (simp only: extra_errors_empty_iff fst_surplus)
qed

subsection \<open>Validation\<close>

lemma model_validate_ok:
  assumes "map_of data ''SECRET_KEY'' = Some sk" "length sk = 64"
    and "map_of data ''ALGORITHM'' = Some alg"
    and "map_of data ''ACCESS_TOKEN_EXPIRE_MINUTES'' = Some m" "coerce m = Some n" "1 \<le> n"
    and "map_of data ''DATABASE_URL'' = Some url"
    and "extra_errors data = []"
  shows "model_validate coerce data =
           Inr \<lparr>SECRET_KEY = sk, ALGORITHM = alg, ACCESS_TOKEN_EXPIRE_MINUTES = n, DATABASE_URL = url\<rparr>"
  using assms
  by (simp add: model_validate_def validate_field_def SECRET_KEY_field_def ALGORITHM_field_def
      ACCESS_TOKEN_EXPIRE_MINUTES_field_def DATABASE_URL_field_def validate_str_def validate_int_def)

lemma model_validate_Inl:
  "model_validate coerce data = Inl e \<Longrightarrow> e = ValidationError (validation_errors coerce data)"
  by (auto simp: model_validate_def Let_def split: sum.splits list.splits)

lemma model_validate_fails:
  "validation_errors coerce data \<noteq> [] \<Longrightarrow>
   model_validate coerce data = Inl (ValidationError (validation_errors coerce data))"
  by (auto simp: model_validate_def validation_errors_def errors_of_def Let_def
      split: sum.splits list.splits)

lemma model_validate_line:
  "(k, t) \<in> set (validation_errors coerce data) \<Longrightarrow>
   \<exists>errs. model_validate coerce data = Inl (ValidationError errs) \<and> (k, t) \<in> set errs"
proof -
  assume line: "(k, t) \<in> set (validation_errors coerce data)"
  then have "validation_errors coerce data \<noteq> []" by auto
  from model_validate_fails[OF this] line show ?thesis by blast
qed

lemma errors_of_validate_field:
  "(k, t) \<in> set (errors_of (validate_field name validator input)) \<longleftrightarrow>
   k = name \<and> (input = None \<and> t = Missing \<or> (\<exists>v. input = Some v \<and> validator v = Inl t))"
  by (auto simp: validate_field_def errors_of_def split: option.splits sum.splits)

lemma validation_errors_mem:
  "(k, t) \<in> set (validation_errors coerce data) \<longleftrightarrow>
   (k, t) \<in> set (errors_of (validate_field ''SECRET_KEY'' SECRET_KEY_field (map_of data ''SECRET_KEY''))) \<or>
   (k, t) \<in> set (errors_of (validate_field ''ALGORITHM'' ALGORITHM_field (map_of data ''ALGORITHM''))) \<or>
   (k, t) \<in> set (errors_of (validate_field ''ACCESS_TOKEN_EXPIRE_MINUTES''
       (ACCESS_TOKEN_EXPIRE_MINUTES_field coerce) (map_of data ''ACCESS_TOKEN_EXPIRE_MINUTES''))) \<or>
   (k, t) \<in> set (errors_of (validate_field ''DATABASE_URL'' DATABASE_URL_field (map_of data ''DATABASE_URL''))) \<or>
   (k, t) \<in> set (extra_errors data)"
  by (simp add: validation_errors_def Let_def)

lemma unconstrained_str: "validate_str None None v = Inr v"
  by (simp add: validate_str_def)

subsection \<open>The cache\<close>

lemma get_settings_cached:
  "cached c = Some s \<Longrightarrow> get_settings coerce e f c = (Inr s, c\<lparr>hits := hits c + 1\<rparr>)"
  by (simp add: get_settings_def)

lemma calls_cached:
  "cached c = Some s \<Longrightarrow>
   calls coerce es c = (replicate (length es) (Inr s), c\<lparr>hits := hits c + length es\<rparr>)"
proof (induction es arbitrary: c)
  case Nil
  then show ?case by simp
next
  case (Cons x es)
  obtain e f where x: "x = (e, f)" by (cases x)
  have "cached (c\<lparr>hits := hits c + 1\<rparr>) = Some s" using Cons.prems by simp
  from Cons.IH[OF this] show ?case
    using Cons.prems by (simp add: x get_settings_cached)
qed

lemma import_module_eq:
  "import_module coerce e f =
     (case Settings_init coerce e f of
        Inl er \<Rightarrow> Inl er
      | Inr s \<Rightarrow> Inr \<lparr>settings = s,
                      get_settings_cache = \<lparr>cached = Some s, hits = 0, misses = 1\<rparr>\<rparr>)"
  by (simp add: import_module_def get_settings_def split: sum.splits)

subsection \<open>The loaded record\<close>

lemma validate_field_Inr:
  "validate_field name validator input = Inr x \<longleftrightarrow> (\<exists>v. input = Some v \<and> validator v = Inr x)"
  by (auto simp: validate_field_def split: option.splits sum.splits)

lemma validate_str_Inr: "validate_str lo hi v = Inr x \<Longrightarrow> x = v"
  by (auto simp: validate_str_def split: if_splits)

lemma validate_int_Inr: "validate_int coerce ge v = Inr n \<Longrightarrow> coerce v = Some n"
  by (auto simp: validate_int_def split: option.splits if_splits)

lemma model_validate_Inr:
  assumes "model_validate coerce data = Inr s"
  shows "map_of data ''SECRET_KEY'' = Some (SECRET_KEY s) \<and>
         map_of data ''ALGORITHM'' = Some (ALGORITHM s) \<and>
         (\<exists>m. map_of data ''ACCESS_TOKEN_EXPIRE_MINUTES'' = Some m \<and>
              coerce m = Some (ACCESS_TOKEN_EXPIRE_MINUTES s)) \<and>
         map_of data ''DATABASE_URL'' = Some (DATABASE_URL s)"
proof -
  from assms obtain sk alg mins url where
    r1: "validate_field ''SECRET_KEY'' SECRET_KEY_field (map_of data ''SECRET_KEY'') = Inr sk"
    and r2: "validate_field ''ALGORITHM'' ALGORITHM_field (map_of data ''ALGORITHM'') = Inr alg"
    and r3: "validate_field ''ACCESS_TOKEN_EXPIRE_MINUTES'' (ACCESS_TOKEN_EXPIRE_MINUTES_field coerce)
               (map_of data ''ACCESS_TOKEN_EXPIRE_MINUTES'') = Inr mins"
    and r4: "validate_field ''DATABASE_URL'' DATABASE_URL_field (map_of data ''DATABASE_URL'') = Inr url"
    and s: "s = \<lparr>SECRET_KEY = sk, ALGORITHM = alg, ACCESS_TOKEN_EXPIRE_MINUTES = mins,
                  DATABASE_URL = url\<rparr>"
    by (auto simp: model_validate_def Let_def split: sum.splits list.splits)
  from r1 have "map_of data ''SECRET_KEY'' = Some sk"
    by (auto simp: validate_field_Inr SECRET_KEY_field_def dest: validate_str_Inr)
  moreover from r2 have "map_of data ''ALGORITHM'' = Some alg"
    by (auto simp: validate_field_Inr ALGORITHM_field_def dest: validate_str_Inr)
  moreover from r3 have "\<exists>m. map_of data ''ACCESS_TOKEN_EXPIRE_MINUTES'' = Some m \<and> coerce m = Some mins"
    by (auto simp: validate_field_Inr ACCESS_TOKEN_EXPIRE_MINUTES_field_def dest: validate_int_Inr)
  moreover from r4 have "map_of data ''DATABASE_URL'' = Some url"
    by (auto simp: validate_field_Inr DATABASE_URL_field_def dest: validate_str_Inr)
  ultimately show ?thesis by (simp add: s)
qed

lemma field_names_mem:
  "''SECRET_KEY'' \<in> set field_names" "''ALGORITHM'' \<in> set field_names"
  "''ACCESS_TOKEN_EXPIRE_MINUTES'' \<in> set field_names" "''DATABASE_URL'' \<in> set field_names"
  by (simp_all add: field_names_def)

lemma build_values_spec:
  "k \<in> set field_names \<Longrightarrow> map_of (settings_build_values e f) k = spec_value e f k"
  by (simp add: build_values_field spec_value_def)

subsection \<open>Attributes\<close>








subsection \<open>Evaluation on concrete environments\<close>

lemmas source_defs =
  settings_build_values_def env_settings_def dotenv_settings_def field_names_def

lemmas validate_defs =
  Settings_init_def model_validate_def validation_errors_def validate_field_def errors_of_def
  extra_errors_def SECRET_KEY_field_def ALGORITHM_field_def ACCESS_TOKEN_EXPIRE_MINUTES_field_def
  DATABASE_URL_field_def validate_str_def validate_int_def

lemmas decimal_defs = decimal_int_def digit_of_def

section \<open>The claims\<close>

subsection \<open>C1: valid inputs are loaded unchanged\<close>

text \<open>
  C1, as amended. When the value supplied for \<^verbatim>\<open>SECRET_KEY\<close> has 64 characters, values are
  supplied for \<^verbatim>\<open>ALGORITHM\<close> and \<^verbatim>\<open>DATABASE_URL\<close>, the value supplied for
  \<^verbatim>\<open>ACCESS_TOKEN_EXPIRE_MINUTES\<close> is read as an integer of at least 1, and every variable
  of the environment file other than the four has an empty value, then \<^verbatim>\<open>Settings()\<close>
  returns the record of exactly these values: the three strings as supplied, the minutes
  as the integer read.
\<close>

theorem Settings_init_valid:
  assumes "map_of (settings_build_values e f) ''SECRET_KEY'' = Some sk" and "length sk = 64"
    and "map_of (settings_build_values e f) ''ALGORITHM'' = Some alg"
    and "map_of (settings_build_values e f) ''ACCESS_TOKEN_EXPIRE_MINUTES'' = Some m"
    and "coerce m = Some n" and "1 \<le> n"
    and "map_of (settings_build_values e f) ''DATABASE_URL'' = Some url"
    and "\<forall>(k, v) \<in> set f. k \<in> set field_names \<or> v = []"
  shows "Settings_init coerce e f =
           Inr \<lparr>SECRET_KEY = sk, ALGORITHM = alg, ACCESS_TOKEN_EXPIRE_MINUTES = n, DATABASE_URL = url\<rparr>"
proof -
  have "extra_errors (settings_build_values e f) = []"
    using assms(8) by (simp only: extra_errors_build_values)
  with assms(1-7) show ?thesis
    unfolding Settings_init_def by (rule model_validate_ok)
qed

text \<open>The four variables in the environment file, the key taken from the examples of its field.\<close>

theorem Settings_init_valid_witness:
  "Settings_init decimal_int []
     [(''SECRET_KEY'', ''42f2029d884cb2707f9abd7ba591a060ed031d7e99dff1e86bc2f0de665f4b39''),
      (''ALGORITHM'', ''HS256''), (''ACCESS_TOKEN_EXPIRE_MINUTES'', ''30''),
      (''DATABASE_URL'', ''sqlite:///example.db'')] =
   Inr \<lparr>SECRET_KEY = ''42f2029d884cb2707f9abd7ba591a060ed031d7e99dff1e86bc2f0de665f4b39'',
        ALGORITHM = ''HS256'', ACCESS_TOKEN_EXPIRE_MINUTES = 30,
        DATABASE_URL = ''sqlite:///example.db''\<rparr>"
  by (rule Settings_init_valid[where m = "''30''"]) (simp_all add: source_defs decimal_defs)

text \<open>
  C1 as stated fails. The four variables are valid, the environment file also sets
  \<^verbatim>\<open>DEBUG=true\<close>, and \<^verbatim>\<open>Settings()\<close> raises: the class leaves \<^verbatim>\<open>extra\<close> at \<^verbatim>\<open>'forbid'\<close>, and a
  surplus variable of the file is an input the model does not permit.
\<close>

theorem surplus_file_variable_counterexample:
  "length ''42f2029d884cb2707f9abd7ba591a060ed031d7e99dff1e86bc2f0de665f4b39'' = 64 \<and>
   decimal_int ''30'' = Some 30 \<and>
   Settings_init decimal_int []
     [(''SECRET_KEY'', ''42f2029d884cb2707f9abd7ba591a060ed031d7e99dff1e86bc2f0de665f4b39''),
      (''ALGORITHM'', ''HS256''), (''ACCESS_TOKEN_EXPIRE_MINUTES'', ''30''),
      (''DATABASE_URL'', ''sqlite:///example.db''), (''DEBUG'', ''true'')] =
   Inl (ValidationError [(''DEBUG'', Extra_forbidden)])"
  by (simp add: source_defs validate_defs decimal_defs)

subsection \<open>C2: the length of the secret key\<close>

text \<open>
  C2. When the value supplied for \<^verbatim>\<open>SECRET_KEY\<close> is not 64 characters long,
  \<^verbatim>\<open>Settings()\<close> raises the validation error, with a line for \<^verbatim>\<open>SECRET_KEY\<close> that says
  too short or too long, whatever the other inputs are.
\<close>

theorem secret_key_length_rejected:
  assumes "map_of (settings_build_values e f) ''SECRET_KEY'' = Some v" and "length v \<noteq> 64"
  shows "\<exists>errs. Settings_init coerce e f = Inl (ValidationError errs) \<and>
           ((''SECRET_KEY'', String_too_short) \<in> set errs \<or>
            (''SECRET_KEY'', String_too_long) \<in> set errs)"
proof -
  let ?d = "settings_build_values e f"
  have "(''SECRET_KEY'', String_too_short) \<in> set (validation_errors coerce ?d) \<or>
        (''SECRET_KEY'', String_too_long) \<in> set (validation_errors coerce ?d)"
    using assms
    by (simp add: validation_errors_def validate_field_def SECRET_KEY_field_def validate_str_def
        errors_of_def Let_def)
  then show ?thesis
    unfolding Settings_init_def using model_validate_line[of _ _ coerce ?d] by blast
qed

text \<open>An eight-character key, everything else valid.\<close>

theorem secret_key_length_rejected_witness:
  "\<exists>errs. Settings_init decimal_int
       [(''SECRET_KEY'', ''changeme''), (''ALGORITHM'', ''HS256''),
        (''ACCESS_TOKEN_EXPIRE_MINUTES'', ''30''), (''DATABASE_URL'', ''sqlite:///example.db'')] []
     = Inl (ValidationError errs) \<and>
     ((''SECRET_KEY'', String_too_short) \<in> set errs \<or> (''SECRET_KEY'', String_too_long) \<in> set errs)"
  by (rule secret_key_length_rejected[where v = "''changeme''"]) (simp_all add: source_defs)

subsection \<open>C3: the expiry minutes\<close>

text \<open>
  C3. When the value supplied for \<^verbatim>\<open>ACCESS_TOKEN_EXPIRE_MINUTES\<close> is not read as an
  integer, or is read as an integer below 1, \<^verbatim>\<open>Settings()\<close> raises the validation error,
  with a line for that field, whatever the other inputs are.
\<close>

theorem expire_minutes_rejected:
  assumes "map_of (settings_build_values e f) ''ACCESS_TOKEN_EXPIRE_MINUTES'' = Some v"
    and "coerce v = None \<or> (\<exists>n. coerce v = Some n \<and> n < 1)"
  shows "\<exists>errs. Settings_init coerce e f = Inl (ValidationError errs) \<and>
           ((''ACCESS_TOKEN_EXPIRE_MINUTES'', Int_parsing) \<in> set errs \<or>
            (''ACCESS_TOKEN_EXPIRE_MINUTES'', Greater_than_equal) \<in> set errs)"
proof -
  let ?d = "settings_build_values e f"
  have "(''ACCESS_TOKEN_EXPIRE_MINUTES'', Int_parsing) \<in> set (validation_errors coerce ?d) \<or>
        (''ACCESS_TOKEN_EXPIRE_MINUTES'', Greater_than_equal) \<in> set (validation_errors coerce ?d)"
    using assms
    by (auto simp: validation_errors_def validate_field_def ACCESS_TOKEN_EXPIRE_MINUTES_field_def
        validate_int_def errors_of_def Let_def)
  then show ?thesis
    unfolding Settings_init_def using model_validate_line[of _ _ coerce ?d] by blast
qed

text \<open>The value \<^verbatim>\<open>0\<close>, and a value that is no numeral.\<close>

theorem expire_minutes_rejected_witness:
  "(\<exists>errs. Settings_init decimal_int
       [(''SECRET_KEY'', ''42f2029d884cb2707f9abd7ba591a060ed031d7e99dff1e86bc2f0de665f4b39''),
        (''ALGORITHM'', ''HS256''), (''ACCESS_TOKEN_EXPIRE_MINUTES'', ''0''),
        (''DATABASE_URL'', ''sqlite:///example.db'')] []
     = Inl (ValidationError errs) \<and>
     ((''ACCESS_TOKEN_EXPIRE_MINUTES'', Int_parsing) \<in> set errs \<or>
      (''ACCESS_TOKEN_EXPIRE_MINUTES'', Greater_than_equal) \<in> set errs)) \<and>
   (\<exists>errs. Settings_init decimal_int
       [(''SECRET_KEY'', ''42f2029d884cb2707f9abd7ba591a060ed031d7e99dff1e86bc2f0de665f4b39''),
        (''ALGORITHM'', ''HS256''), (''ACCESS_TOKEN_EXPIRE_MINUTES'', ''soon''),
        (''DATABASE_URL'', ''sqlite:///example.db'')] []
     = Inl (ValidationError errs) \<and>
     ((''ACCESS_TOKEN_EXPIRE_MINUTES'', Int_parsing) \<in> set errs \<or>
      (''ACCESS_TOKEN_EXPIRE_MINUTES'', Greater_than_equal) \<in> set errs))"
proof (rule conjI)
  show "\<exists>errs. Settings_init decimal_int
       [(''SECRET_KEY'', ''42f2029d884cb2707f9abd7ba591a060ed031d7e99dff1e86bc2f0de665f4b39''),
        (''ALGORITHM'', ''HS256''), (''ACCESS_TOKEN_EXPIRE_MINUTES'', ''0''),
        (''DATABASE_URL'', ''sqlite:///example.db'')] []
     = Inl (ValidationError errs) \<and>
     ((''ACCESS_TOKEN_EXPIRE_MINUTES'', Int_parsing) \<in> set errs \<or>
      (''ACCESS_TOKEN_EXPIRE_MINUTES'', Greater_than_equal) \<in> set errs)"
    by (rule expire_minutes_rejected[where v = "''0''"]) (simp_all add: source_defs decimal_defs)
  show "\<exists>errs. Settings_init decimal_int
       [(''SECRET_KEY'', ''42f2029d884cb2707f9abd7ba591a060ed031d7e99dff1e86bc2f0de665f4b39''),
        (''ALGORITHM'', ''HS256''), (''ACCESS_TOKEN_EXPIRE_MINUTES'', ''soon''),
        (''DATABASE_URL'', ''sqlite:///example.db'')] []
     = Inl (ValidationError errs) \<and>
     ((''ACCESS_TOKEN_EXPIRE_MINUTES'', Int_parsing) \<in> set errs \<or>
      (''ACCESS_TOKEN_EXPIRE_MINUTES'', Greater_than_equal) \<in> set errs)"
    by (rule expire_minutes_rejected[where v = "''soon''"]) (simp_all add: source_defs decimal_defs)
qed

subsection \<open>C4: a missing variable\<close>

text \<open>
  C4. When one of the four variables is set neither in the process environment nor in
  the environment file, \<^verbatim>\<open>Settings()\<close> raises the validation error, with a line that
  reports this variable as missing. The result is the error and no record: a record with
  a field left out is never returned.
\<close>

theorem missing_variable_rejected:
  assumes "k \<in> set field_names" and "map_of e k = None" and "map_of f k = None"
  shows "\<exists>errs. Settings_init coerce e f = Inl (ValidationError errs) \<and> (k, Missing) \<in> set errs"
proof -
  let ?d = "settings_build_values e f"
  have absent: "map_of ?d k = None"
    using assms by (simp add: build_values_field)
  consider "k = ''SECRET_KEY''" | "k = ''ALGORITHM''" | "k = ''ACCESS_TOKEN_EXPIRE_MINUTES''"
    | "k = ''DATABASE_URL''"
    using assms(1) by (auto simp: field_names_def)
  then have "(k, Missing) \<in> set (validation_errors coerce ?d)"
  proof cases
    case 1
    with absent show ?thesis
      by (simp add: validation_errors_def validate_field_def errors_of_def Let_def)
  next
    case 2
    with absent show ?thesis
      by (simp add: validation_errors_def validate_field_def errors_of_def Let_def)
  next
    case 3
    with absent show ?thesis
      by (simp add: validation_errors_def validate_field_def errors_of_def Let_def)
  next
    case 4
    with absent show ?thesis
      by (simp add: validation_errors_def validate_field_def errors_of_def Let_def)
  qed
  then show ?thesis
    unfolding Settings_init_def by (rule model_validate_line)
qed

text \<open>Two variables in the process environment, one in the file, \<^verbatim>\<open>DATABASE_URL\<close> nowhere.\<close>

theorem missing_variable_rejected_witness:
  "\<exists>errs. Settings_init decimal_int
       [(''SECRET_KEY'', ''42f2029d884cb2707f9abd7ba591a060ed031d7e99dff1e86bc2f0de665f4b39''),
        (''ALGORITHM'', ''HS256'')]
       [(''ACCESS_TOKEN_EXPIRE_MINUTES'', ''30'')]
     = Inl (ValidationError errs) \<and> (''DATABASE_URL'', Missing) \<in> set errs"
  by (rule missing_variable_rejected) (simp_all add: field_names_def)

subsection \<open>C5: empty algorithm and database URL\<close>

text \<open>
  C5 as stated fails. \<^verbatim>\<open>ALGORITHM\<close> and \<^verbatim>\<open>DATABASE_URL\<close> are declared without
  \<^verbatim>\<open>min_length\<close>; with both set to the empty string and the other two variables valid,
  \<^verbatim>\<open>Settings()\<close> returns a record that holds the two empty strings.
\<close>

theorem empty_algorithm_and_url_counterexample:
  "Settings_init decimal_int
     [(''SECRET_KEY'', ''42f2029d884cb2707f9abd7ba591a060ed031d7e99dff1e86bc2f0de665f4b39''),
      (''ALGORITHM'', ''''), (''ACCESS_TOKEN_EXPIRE_MINUTES'', ''30''), (''DATABASE_URL'', '''')] [] =
   Inr \<lparr>SECRET_KEY = ''42f2029d884cb2707f9abd7ba591a060ed031d7e99dff1e86bc2f0de665f4b39'',
        ALGORITHM = '''', ACCESS_TOKEN_EXPIRE_MINUTES = 30, DATABASE_URL = ''''\<rparr>"
  by (simp add: source_defs validate_defs decimal_defs)

text \<open>
  C5, as amended. A value supplied for \<^verbatim>\<open>ALGORITHM\<close> or for \<^verbatim>\<open>DATABASE_URL\<close> is accepted
  whatever it is, the empty string included: no error that \<^verbatim>\<open>Settings()\<close> raises has a line
  for either field, and when \<^verbatim>\<open>SECRET_KEY\<close> and \<^verbatim>\<open>ACCESS_TOKEN_EXPIRE_MINUTES\<close> are valid
  and the environment file has no surplus variable with a value, \<^verbatim>\<open>Settings()\<close> returns
  the record that holds both values unchanged.
\<close>

theorem algorithm_and_url_unconstrained:
  assumes "map_of (settings_build_values e f) ''ALGORITHM'' = Some alg"
    and "map_of (settings_build_values e f) ''DATABASE_URL'' = Some url"
  shows "(\<forall>errs t. Settings_init coerce e f = Inl (ValidationError errs) \<longrightarrow>
            (''ALGORITHM'', t) \<notin> set errs \<and> (''DATABASE_URL'', t) \<notin> set errs) \<and>
         (\<forall>sk m n. map_of (settings_build_values e f) ''SECRET_KEY'' = Some sk \<and> length sk = 64 \<and>
            map_of (settings_build_values e f) ''ACCESS_TOKEN_EXPIRE_MINUTES'' = Some m \<and>
            coerce m = Some n \<and> 1 \<le> n \<and> (\<forall>(k, v) \<in> set f. k \<in> set field_names \<or> v = []) \<longrightarrow>
            Settings_init coerce e f =
              Inr \<lparr>SECRET_KEY = sk, ALGORITHM = alg, ACCESS_TOKEN_EXPIRE_MINUTES = n,
                   DATABASE_URL = url\<rparr>)"
proof (intro conjI allI impI)
  let ?d = "settings_build_values e f"
  fix errs t
  assume "Settings_init coerce e f = Inl (ValidationError errs)"
  then have errs: "errs = validation_errors coerce ?d"
    unfolding Settings_init_def by (auto dest: model_validate_Inl)
  have names: "''ALGORITHM'' \<in> set field_names" "''DATABASE_URL'' \<in> set field_names"
    by (simp_all add: field_names_def)
  show "(''ALGORITHM'', t) \<notin> set errs"
    using assms(1) names(1) unfolding errs
    by (simp add: validation_errors_mem errors_of_validate_field extra_errors_mem
        ALGORITHM_field_def unconstrained_str)
  show "(''DATABASE_URL'', t) \<notin> set errs"
    using assms(2) names(2) unfolding errs
    by (simp add: validation_errors_mem errors_of_validate_field extra_errors_mem
        DATABASE_URL_field_def unconstrained_str)
next
  fix sk m n
  assume a: "map_of (settings_build_values e f) ''SECRET_KEY'' = Some sk \<and> length sk = 64 \<and>
            map_of (settings_build_values e f) ''ACCESS_TOKEN_EXPIRE_MINUTES'' = Some m \<and>
            coerce m = Some n \<and> 1 \<le> n \<and> (\<forall>(k, v) \<in> set f. k \<in> set field_names \<or> v = [])"
  then have "\<forall>(k, v) \<in> set f. k \<in> set field_names \<or> v = []"
    by blast
  then have "extra_errors (settings_build_values e f) = []"
    by (simp only: extra_errors_build_values)
  with a assms show "Settings_init coerce e f =
              Inr \<lparr>SECRET_KEY = sk, ALGORITHM = alg, ACCESS_TOKEN_EXPIRE_MINUTES = n,
                   DATABASE_URL = url\<rparr>"
    unfolding Settings_init_def by (intro model_validate_ok[where m = m]) simp_all
qed

text \<open>Both values empty.\<close>

theorem algorithm_and_url_unconstrained_witness:
  "Settings_init decimal_int
     [(''SECRET_KEY'', ''42f2029d884cb2707f9abd7ba591a060ed031d7e99dff1e86bc2f0de665f4b39''),
      (''ALGORITHM'', ''''), (''ACCESS_TOKEN_EXPIRE_MINUTES'', ''30''), (''DATABASE_URL'', '''')] [] =
   Inr \<lparr>SECRET_KEY = ''42f2029d884cb2707f9abd7ba591a060ed031d7e99dff1e86bc2f0de665f4b39'',
        ALGORITHM = '''', ACCESS_TOKEN_EXPIRE_MINUTES = 30, DATABASE_URL = ''''\<rparr>"
proof -
  let ?e = "[(''SECRET_KEY'', ''42f2029d884cb2707f9abd7ba591a060ed031d7e99dff1e86bc2f0de665f4b39''),
      (''ALGORITHM'', ''''), (''ACCESS_TOKEN_EXPIRE_MINUTES'', ''30''), (''DATABASE_URL'', '''')]"
  have alg: "map_of (settings_build_values ?e []) ''ALGORITHM'' = Some ''''"
    and url: "map_of (settings_build_values ?e []) ''DATABASE_URL'' = Some ''''"
    and key: "map_of (settings_build_values ?e []) ''SECRET_KEY'' =
                Some ''42f2029d884cb2707f9abd7ba591a060ed031d7e99dff1e86bc2f0de665f4b39''"
    and mins: "map_of (settings_build_values ?e []) ''ACCESS_TOKEN_EXPIRE_MINUTES'' = Some ''30''"
    by (simp_all add: source_defs)
  have thirty: "decimal_int ''30'' = Some 30"
    by (simp add: decimal_defs)
  from algorithm_and_url_unconstrained[OF alg url, of decimal_int]
  show ?thesis
    using key mins thirty by simp
qed

subsection \<open>C6: one load, then the cache\<close>

text \<open>
  C6. Once the module is imported, every call of \<^verbatim>\<open>get_settings()\<close> returns the record
  that the import loaded, whatever the environment and the file have become in the
  meantime; the calls are cache hits, and \<^verbatim>\<open>Settings()\<close> has run exactly once in all: the
  count of misses stays 1.
\<close>

theorem get_settings_loads_once:
  assumes "import_module coerce e f = Inr m"
  shows "fst (calls coerce' es (get_settings_cache m)) = replicate (length es) (Inr (settings m)) \<and>
         misses (snd (calls coerce' es (get_settings_cache m))) = 1 \<and>
         hits (snd (calls coerce' es (get_settings_cache m))) = length es \<and>
         cached (snd (calls coerce' es (get_settings_cache m))) = Some (settings m)"
proof -
  from assms obtain s where m: "m = \<lparr>settings = s,
      get_settings_cache = \<lparr>cached = Some s, hits = 0, misses = 1\<rparr>\<rparr>"
    by (auto simp: import_module_eq split: sum.splits)
  have "cached (get_settings_cache m) = Some (settings m)"
    by (simp add: m)
  from calls_cached[OF this, of coerce' es] show ?thesis
    by (simp add: m)
qed

text \<open>
  Two calls after an import from the example file; the second one under an environment
  that now sets another algorithm.
\<close>

theorem get_settings_loads_once_witness:
  "fst (calls decimal_int [([], []), ([(''ALGORITHM'', ''RS256'')], [])]
     \<lparr>cached = Some \<lparr>SECRET_KEY = ''42f2029d884cb2707f9abd7ba591a060ed031d7e99dff1e86bc2f0de665f4b39'',
        ALGORITHM = ''HS256'', ACCESS_TOKEN_EXPIRE_MINUTES = 30,
        DATABASE_URL = ''sqlite:///example.db''\<rparr>, hits = 0, misses = 1\<rparr>) =
   [Inr \<lparr>SECRET_KEY = ''42f2029d884cb2707f9abd7ba591a060ed031d7e99dff1e86bc2f0de665f4b39'',
        ALGORITHM = ''HS256'', ACCESS_TOKEN_EXPIRE_MINUTES = 30,
        DATABASE_URL = ''sqlite:///example.db''\<rparr>,
    Inr \<lparr>SECRET_KEY = ''42f2029d884cb2707f9abd7ba591a060ed031d7e99dff1e86bc2f0de665f4b39'',
        ALGORITHM = ''HS256'', ACCESS_TOKEN_EXPIRE_MINUTES = 30,
        DATABASE_URL = ''sqlite:///example.db''\<rparr>] \<and>
   misses (snd (calls decimal_int [([], []), ([(''ALGORITHM'', ''RS256'')], [])]
     \<lparr>cached = Some \<lparr>SECRET_KEY = ''42f2029d884cb2707f9abd7ba591a060ed031d7e99dff1e86bc2f0de665f4b39'',
        ALGORITHM = ''HS256'', ACCESS_TOKEN_EXPIRE_MINUTES = 30,
        DATABASE_URL = ''sqlite:///example.db''\<rparr>, hits = 0, misses = 1\<rparr>)) = 1"
proof -
  let ?s = "\<lparr>SECRET_KEY = ''42f2029d884cb2707f9abd7ba591a060ed031d7e99dff1e86bc2f0de665f4b39'',
        ALGORITHM = ''HS256'', ACCESS_TOKEN_EXPIRE_MINUTES = 30,
        DATABASE_URL = ''sqlite:///example.db''\<rparr>"
  have "import_module decimal_int []
          [(''SECRET_KEY'', ''42f2029d884cb2707f9abd7ba591a060ed031d7e99dff1e86bc2f0de665f4b39''),
           (''ALGORITHM'', ''HS256''), (''ACCESS_TOKEN_EXPIRE_MINUTES'', ''30''),
           (''DATABASE_URL'', ''sqlite:///example.db'')] =
        Inr \<lparr>settings = ?s, get_settings_cache = \<lparr>cached = Some ?s, hits = 0, misses = 1\<rparr>\<rparr>"
    by (simp add: import_module_eq source_defs validate_defs decimal_defs)
  from get_settings_loads_once[OF this, of decimal_int "[([], []), ([(''ALGORITHM'', ''RS256'')], [])]"]
  show ?thesis by simp
qed

subsection \<open>C7: the process environment comes before the file\<close>

text \<open>
  C7. For each of the four variables, \<^verbatim>\<open>Settings()\<close> uses the value of the process
  environment when the variable is set there, and the value of the environment file only
  when it is not: that value is the input validation sees, every record \<^verbatim>\<open>Settings()\<close>
  returns holds it field by field (the minutes as the integer read from it), and when
  these values are valid and the file has no surplus variable with a value,
  \<^verbatim>\<open>Settings()\<close> returns the record made of them.
\<close>

theorem environment_before_file:
  "(\<forall>k \<in> set field_names. map_of (settings_build_values e f) k = spec_value e f k) \<and>
   (\<forall>s. Settings_init coerce e f = Inr s \<longrightarrow>
      spec_value e f ''SECRET_KEY'' = Some (SECRET_KEY s) \<and>
      spec_value e f ''ALGORITHM'' = Some (ALGORITHM s) \<and>
      (\<exists>m. spec_value e f ''ACCESS_TOKEN_EXPIRE_MINUTES'' = Some m \<and>
           coerce m = Some (ACCESS_TOKEN_EXPIRE_MINUTES s)) \<and>
      spec_value e f ''DATABASE_URL'' = Some (DATABASE_URL s)) \<and>
   (\<forall>sk alg m n url.
      spec_value e f ''SECRET_KEY'' = Some sk \<and> length sk = 64 \<and>
      spec_value e f ''ALGORITHM'' = Some alg \<and>
      spec_value e f ''ACCESS_TOKEN_EXPIRE_MINUTES'' = Some m \<and> coerce m = Some n \<and> 1 \<le> n \<and>
      spec_value e f ''DATABASE_URL'' = Some url \<and>
      (\<forall>(k, v) \<in> set f. k \<in> set field_names \<or> v = []) \<longrightarrow>
      Settings_init coerce e f =
        Inr \<lparr>SECRET_KEY = sk, ALGORITHM = alg, ACCESS_TOKEN_EXPIRE_MINUTES = n,
             DATABASE_URL = url\<rparr>)"
proof -
  have lookup: "\<forall>k \<in> set field_names. map_of (settings_build_values e f) k = spec_value e f k"
    by (simp add: build_values_spec)
  have loaded: "spec_value e f ''SECRET_KEY'' = Some (SECRET_KEY s) \<and>
      spec_value e f ''ALGORITHM'' = Some (ALGORITHM s) \<and>
      (\<exists>m. spec_value e f ''ACCESS_TOKEN_EXPIRE_MINUTES'' = Some m \<and>
           coerce m = Some (ACCESS_TOKEN_EXPIRE_MINUTES s)) \<and>
      spec_value e f ''DATABASE_URL'' = Some (DATABASE_URL s)"
    if "Settings_init coerce e f = Inr s" for s
  proof -
    from that have "model_validate coerce (settings_build_values e f) = Inr s"
      by (simp add: Settings_init_def)
    from model_validate_Inr[OF this] show ?thesis
      by (simp only: build_values_spec field_names_mem)
  qed
  have loads: "Settings_init coerce e f =
        Inr \<lparr>SECRET_KEY = sk, ALGORITHM = alg, ACCESS_TOKEN_EXPIRE_MINUTES = n,
             DATABASE_URL = url\<rparr>"
    if a: "spec_value e f ''SECRET_KEY'' = Some sk \<and> length sk = 64 \<and>
      spec_value e f ''ALGORITHM'' = Some alg \<and>
      spec_value e f ''ACCESS_TOKEN_EXPIRE_MINUTES'' = Some m \<and> coerce m = Some n \<and> 1 \<le> n \<and>
      spec_value e f ''DATABASE_URL'' = Some url \<and>
      (\<forall>(k, v) \<in> set f. k \<in> set field_names \<or> v = [])" for sk alg m n url
  proof -
    from a have "\<forall>(k, v) \<in> set f. k \<in> set field_names \<or> v = []"
      by blast
    then have "extra_errors (settings_build_values e f) = []"
      by (simp only: extra_errors_build_values)
    with a show ?thesis
      unfolding Settings_init_def
      by (intro model_validate_ok[where m = m]) (simp_all add: build_values_spec field_names_mem)
  qed
  from lookup loaded loads show ?thesis
    by blast
qed

text \<open>
  \<^verbatim>\<open>ALGORITHM\<close> and the minutes are set in both places: the loaded record has the values
  of the process environment. The key and the database URL are set in the file only: the
  record has the file's values.
\<close>

theorem environment_before_file_witness:
  "Settings_init decimal_int
     [(''ALGORITHM'', ''HS256''), (''ACCESS_TOKEN_EXPIRE_MINUTES'', ''30'')]
     [(''SECRET_KEY'', ''42f2029d884cb2707f9abd7ba591a060ed031d7e99dff1e86bc2f0de665f4b39''),
      (''ALGORITHM'', ''RS256''), (''ACCESS_TOKEN_EXPIRE_MINUTES'', ''5''),
      (''DATABASE_URL'', ''sqlite:///example.db'')] =
   Inr \<lparr>SECRET_KEY = ''42f2029d884cb2707f9abd7ba591a060ed031d7e99dff1e86bc2f0de665f4b39'',
        ALGORITHM = ''HS256'', ACCESS_TOKEN_EXPIRE_MINUTES = 30,
        DATABASE_URL = ''sqlite:///example.db''\<rparr>"
proof -
  let ?e = "[(''ALGORITHM'', ''HS256''), (''ACCESS_TOKEN_EXPIRE_MINUTES'', ''30'')]"
  let ?f = "[(''SECRET_KEY'', ''42f2029d884cb2707f9abd7ba591a060ed031d7e99dff1e86bc2f0de665f4b39''),
      (''ALGORITHM'', ''RS256''), (''ACCESS_TOKEN_EXPIRE_MINUTES'', ''5''),
      (''DATABASE_URL'', ''sqlite:///example.db'')]"
  have key: "spec_value ?e ?f ''SECRET_KEY'' =
               Some ''42f2029d884cb2707f9abd7ba591a060ed031d7e99dff1e86bc2f0de665f4b39''"
    and alg: "spec_value ?e ?f ''ALGORITHM'' = Some ''HS256''"
    and mins: "spec_value ?e ?f ''ACCESS_TOKEN_EXPIRE_MINUTES'' = Some ''30''"
    and url: "spec_value ?e ?f ''DATABASE_URL'' = Some ''sqlite:///example.db''"
    by (simp_all add: spec_value_def)
  have thirty: "decimal_int ''30'' = Some 30"
    by (simp add: decimal_defs)
  have surplus: "\<forall>(k, v) \<in> set ?f. k \<in> set field_names \<or> v = []"
    by (simp add: field_names_def)
  from environment_before_file[of ?e ?f decimal_int] key alg mins url thirty surplus
  show ?thesis by simp
qed

subsection \<open>C8: the record does not change\<close>



subsection \<open>C10: the load happens at import\<close>

text \<open>
  C10. Executing the module runs \<^verbatim>\<open>get_settings()\<close> once to bind \<^verbatim>\<open>settings\<close>. If
  \<^verbatim>\<open>Settings()\<close> raises under the environment of that moment, the import fails with the
  same error. Otherwise \<^verbatim>\<open>settings\<close> is the record loaded, \<^verbatim>\<open>Settings()\<close> has run once, and
  every later call of \<^verbatim>\<open>get_settings()\<close> is a cache hit that returns that same record.
\<close>

theorem import_loads_eagerly:
  "(\<forall>er. Settings_init coerce e f = Inl er \<longrightarrow> import_module coerce e f = Inl er) \<and>
   (\<forall>s. Settings_init coerce e f = Inr s \<longrightarrow>
      (\<exists>m. import_module coerce e f = Inr m \<and> settings m = s \<and>
           misses (get_settings_cache m) = 1 \<and>
           (\<forall>coerce' e' f'. get_settings coerce' e' f' (get_settings_cache m) =
              (Inr (settings m), (get_settings_cache m)\<lparr>hits := hits (get_settings_cache m) + 1\<rparr>))))"
  by (simp add: import_module_eq get_settings_cached)

text \<open>
  An environment that sets \<^verbatim>\<open>ALGORITHM\<close> only: the import fails. The example file: the
  import succeeds and a later call returns the bound record.
\<close>

theorem import_loads_eagerly_witness:
  "import_module decimal_int [(''ALGORITHM'', ''HS256'')] [] =
     Inl (ValidationError [(''SECRET_KEY'', Missing), (''ACCESS_TOKEN_EXPIRE_MINUTES'', Missing),
                           (''DATABASE_URL'', Missing)]) \<and>
   (\<exists>m. import_module decimal_int []
          [(''SECRET_KEY'', ''42f2029d884cb2707f9abd7ba591a060ed031d7e99dff1e86bc2f0de665f4b39''),
           (''ALGORITHM'', ''HS256''), (''ACCESS_TOKEN_EXPIRE_MINUTES'', ''30''),
           (''DATABASE_URL'', ''sqlite:///example.db'')] = Inr m \<and>
        settings m = \<lparr>SECRET_KEY = ''42f2029d884cb2707f9abd7ba591a060ed031d7e99dff1e86bc2f0de665f4b39'',
          ALGORITHM = ''HS256'', ACCESS_TOKEN_EXPIRE_MINUTES = 30,
          DATABASE_URL = ''sqlite:///example.db''\<rparr> \<and>
        fst (get_settings decimal_int [] [] (get_settings_cache m)) = Inr (settings m))"
proof -
  have bad: "Settings_init decimal_int [(''ALGORITHM'', ''HS256'')] [] =
     Inl (ValidationError [(''SECRET_KEY'', Missing), (''ACCESS_TOKEN_EXPIRE_MINUTES'', Missing),
                           (''DATABASE_URL'', Missing)])"
    by (simp add: source_defs validate_defs)
  have good: "Settings_init decimal_int []
          [(''SECRET_KEY'', ''42f2029d884cb2707f9abd7ba591a060ed031d7e99dff1e86bc2f0de665f4b39''),
           (''ALGORITHM'', ''HS256''), (''ACCESS_TOKEN_EXPIRE_MINUTES'', ''30''),
           (''DATABASE_URL'', ''sqlite:///example.db'')] =
        Inr \<lparr>SECRET_KEY = ''42f2029d884cb2707f9abd7ba591a060ed031d7e99dff1e86bc2f0de665f4b39'',
          ALGORITHM = ''HS256'', ACCESS_TOKEN_EXPIRE_MINUTES = 30,
          DATABASE_URL = ''sqlite:///example.db''\<rparr>"
    by (simp add: source_defs validate_defs decimal_defs)
  from import_loads_eagerly[of decimal_int "[(''ALGORITHM'', ''HS256'')]" "[]"] bad
  have one: "import_module decimal_int [(''ALGORITHM'', ''HS256'')] [] =
     Inl (ValidationError [(''SECRET_KEY'', Missing), (''ACCESS_TOKEN_EXPIRE_MINUTES'', Missing),
                           (''DATABASE_URL'', Missing)])"
    by blast
  from import_loads_eagerly[of decimal_int "[]"
          "[(''SECRET_KEY'', ''42f2029d884cb2707f9abd7ba591a060ed031d7e99dff1e86bc2f0de665f4b39''),
           (''ALGORITHM'', ''HS256''), (''ACCESS_TOKEN_EXPIRE_MINUTES'', ''30''),
           (''DATABASE_URL'', ''sqlite:///example.db'')]"] good
  obtain m where "import_module decimal_int []
          [(''SECRET_KEY'', ''42f2029d884cb2707f9abd7ba591a060ed031d7e99dff1e86bc2f0de665f4b39''),
           (''ALGORITHM'', ''HS256''), (''ACCESS_TOKEN_EXPIRE_MINUTES'', ''30''),
           (''DATABASE_URL'', ''sqlite:///example.db'')] = Inr m"
     and "settings m = \<lparr>SECRET_KEY = ''42f2029d884cb2707f9abd7ba591a060ed031d7e99dff1e86bc2f0de665f4b39'',
          ALGORITHM = ''HS256'', ACCESS_TOKEN_EXPIRE_MINUTES = 30,
          DATABASE_URL = ''sqlite:///example.db''\<rparr>"
     and "\<forall>coerce' e' f'. get_settings coerce' e' f' (get_settings_cache m) =
              (Inr (settings m), (get_settings_cache m)\<lparr>hits := hits (get_settings_cache m) + 1\<rparr>)"
    by blast
  then show ?thesis using one by auto
qed

end
